theory Spec2Isabelle
  imports Complex_Main "HOL-Library.Word"
begin

section \<open>Python values used by \<^verbatim>\<open>ai-backend/main.py\<close>\<close>

text \<open>
  A Python \<^verbatim>\<open>str\<close> is modelled as a HOL \<open>string\<close>, one \<open>char\<close> per code point, so
  the texts covered are those whose code points are below 256. Floats (distances and
  similarity scores) are modelled as \<open>real\<close>: the operations the code applies to them
  are comparison with a constant, \<open>1 - d\<close> and \<open>1 - d / 2\<close>.
\<close>

type_synonym bytes = "8 word list"

text \<open>
  Exceptions of class \<^verbatim>\<open>Exception\<close>. \<open>HTTPException status_code detail\<close> is FastAPI's;
  every other one is \<open>Exception msg\<close> with \<open>msg\<close> what \<^verbatim>\<open>str(e)\<close> prints. What is raised
  outside class \<^verbatim>\<open>Exception\<close> is modelled further below, for \<open>retrieve_context\<close>.
\<close>

datatype exn = HTTPException int string | Exception string

text \<open>\<^verbatim>\<open>try: body  except Exception as e: handler(e)\<close>\<close>

definition try_except :: "exn + 'a \<Rightarrow> (exn \<Rightarrow> exn + 'a) \<Rightarrow> exn + 'a" where
  "try_except body handler = (case body of Inl e \<Rightarrow> handler e | Inr v \<Rightarrow> Inr v)"

text \<open>Decimal printing of integers, as an f-string does.\<close>

function str_nat :: "nat \<Rightarrow> string" where
  "str_nat n = (if n < 10 then [char_of (48 + n)]
                else str_nat (n div 10) @ [char_of (48 + n mod 10)])"
  by pat_completeness auto
termination
  by (relation "measure id") auto

declare str_nat.simps [simp del]

definition str_int :: "int \<Rightarrow> string" where
  "str_int i = (if i < 0 then ''-'' @ str_nat (nat (- i)) else str_nat (nat i))"

text \<open>
  \<^verbatim>\<open>str(e)\<close>: Starlette prints an \<^verbatim>\<open>HTTPException\<close> as \<^verbatim>\<open>"{status_code}: {detail}"\<close>.
\<close>

fun str_exn :: "exn \<Rightarrow> string" where
  "str_exn (HTTPException status_code detail) = str_int status_code @ '': '' @ detail"
| "str_exn (Exception msg) = msg"

text \<open>\<^verbatim>\<open>str.isspace\<close> on the code points below 256.\<close>

definition isspace :: "char \<Rightarrow> bool" where
  "isspace c = (of_char c \<in> {9, 10, 11, 12, 13, 28, 29, 30, 31, 32, 133, 160 :: nat})"

definition str_strip :: "string \<Rightarrow> string" where
  "str_strip s = rev (dropWhile isspace (rev (dropWhile isspace s)))"

text \<open>\<^verbatim>\<open>s.split()\<close>: the maximal runs of non-whitespace characters.\<close>

fun split_from :: "string \<Rightarrow> string \<Rightarrow> string list" where
  "split_from cur [] = (if cur = [] then [] else [cur])"
| "split_from cur (c # cs) =
     (if isspace c then (if cur = [] then split_from [] cs else cur # split_from [] cs)
      else split_from (cur @ [c]) cs)"

definition str_split :: "string \<Rightarrow> string list" where
  "str_split s = split_from [] s"

text \<open>\<^verbatim>\<open>sep.join(xs)\<close>\<close>

fun str_join :: "string \<Rightarrow> string list \<Rightarrow> string" where
  "str_join sep [] = []"
| "str_join sep [x] = x"
| "str_join sep (x # y # ys) = x @ sep @ str_join sep (y # ys)"

text \<open>\<^verbatim>\<open>s.lower()\<close> on the code points below 256.\<close>

definition lower_char :: "char \<Rightarrow> char" where
  "lower_char c =
     (let n = (of_char c :: nat)
      in if (65 \<le> n \<and> n \<le> 90) \<or> (192 \<le> n \<and> n \<le> 222 \<and> n \<noteq> 215)
         then char_of (n + 32) else c)"

definition str_lower :: "string \<Rightarrow> string" where
  "str_lower s = map lower_char s"

text \<open>
  \<^verbatim>\<open>os.path.splitext\<close> (POSIX): the extension starts at the last dot of the path,
  when that dot comes after the last slash and after a character of the file name that
  is not a dot.
\<close>

definition rfind :: "char \<Rightarrow> string \<Rightarrow> int" where
  "rfind c p = (if c \<in> set p
                then int (length p) - 1 - int (length (takeWhile (\<lambda>x. x \<noteq> c) (rev p)))
                else - 1)"

definition splitext :: "string \<Rightarrow> string \<times> string" where
  "splitext p =
     (let sepIndex = rfind CHR ''/'' p;
          dotIndex = rfind CHR ''.'' p
      in if dotIndex > sepIndex
            \<and> list_ex (\<lambda>c. c \<noteq> CHR ''.'')
                 (take (nat (dotIndex - (sepIndex + 1))) (drop (nat (sepIndex + 1)) p))
         then (take (nat dotIndex) p, drop (nat dotIndex) p)
         else (p, []))"

section \<open>The vector store\<close>

text \<open>
  ChromaDB is an external collaborator: the client and its collections are parameters.
  \<open>get_collection\<close> raises when the collection does not exist; \<open>count\<close> and \<open>query\<close>
  may raise; \<open>query q n\<close> is \<^verbatim>\<open>collection.query(query_texts=[q], n_results=n, ...)\<close>
  and a \<open>query_result\<close> holds the lists \<^verbatim>\<open>results['documents'][0]\<close>,
  \<^verbatim>\<open>results['metadatas'][0]\<close> and \<^verbatim>\<open>results['distances'][0]\<close>.
\<close>

type_synonym metadata = "(string \<times> int) list"

record query_result =
  documents :: "string list"
  metadatas :: "metadata list"
  distances :: "real list"

record collection =
  count :: "exn + int"
  query :: "string \<Rightarrow> int \<Rightarrow> exn + query_result"
  add :: "string list \<Rightarrow> metadata list \<Rightarrow> string list \<Rightarrow> exn + unit"

record chroma_client =
  get_collection :: "string \<Rightarrow> exn + collection"
  get_or_create_collection :: "string \<Rightarrow> exn + collection"

text \<open>The dictionaries that the retrieval functions build.\<close>

record context_item =
  content :: string
  metadata :: metadata
  similarity_score :: real

record source_context = context_item +
  document_id :: string
  source :: string

section \<open>Single-document retrieval\<close>

text \<open>
  The loop of \<open>retrieve_context\<close> over \<^verbatim>\<open>enumerate(results['documents'][0])\<close>. Reading
  \<^verbatim>\<open>results['distances'][0][i]\<close> or \<^verbatim>\<open>results['metadatas'][0][i]\<close> out of range raises
  \<^verbatim>\<open>IndexError\<close>.
\<close>

definition IndexError :: exn where
  "IndexError = Exception ''list index out of range''"

fun context_loop :: "query_result \<Rightarrow> nat \<Rightarrow> string list \<Rightarrow> context_item list \<Rightarrow> exn + context_item list" where
  "context_loop results i [] context_data = Inr context_data"
| "context_loop results i (c # rest) context_data =
     (if i < length (distances results) then
        (let distance = distances results ! i
         in if i < length (metadatas results) then
              context_loop results (Suc i) rest
                (context_data @
                   [\<lparr>content = c, metadata = metadatas results ! i,
                     similarity_score = 1 - distance / 2\<rparr>])
            else Inl IndexError)
      else Inl IndexError)"

text \<open>
  \<open>retrieve_context\<close>, the live body (lines 171 to 229; what follows the last
  \<^verbatim>\<open>return\<close> is unreachable). The result is \<open>Inl e\<close> if the function raises \<open>e\<close>.
\<close>

definition retrieve_context :: "chroma_client \<Rightarrow> string \<Rightarrow> string \<Rightarrow> int \<Rightarrow> exn + context_item list" where
  "retrieve_context client q doc_id k =
     (case (case get_collection client doc_id of
              Inl e \<Rightarrow> Inl e
            | Inr collection \<Rightarrow>
                (case count collection of
                   Inl e \<Rightarrow> Inl e
                 | Inr collection_count \<Rightarrow> Inr (collection, collection_count))) of
        Inl e \<Rightarrow> Inr []
      | Inr (collection, collection_count) \<Rightarrow>
          if collection_count = 0 then Inr []
          else try_except
                 (case query collection q (min k collection_count) of
                    Inl e \<Rightarrow> Inl e
                  | Inr results \<Rightarrow> context_loop results 0 (documents results) [])
                 (\<lambda>e. Inr []))"

section \<open>Multi-document retrieval\<close>

text \<open>
  The inner loop of \<open>retrieve_context_multiple_docs\<close> for one document. It appends to
  \<open>all_contexts\<close>; an \<^verbatim>\<open>IndexError\<close> ends it with what was appended so far, since the
  \<^verbatim>\<open>except\<close> of the caller only prints and continues with the next document. The
  second component is the exception raised, if any.
\<close>

fun append_hits :: "string \<Rightarrow> query_result \<Rightarrow> nat \<Rightarrow> string list \<Rightarrow> source_context list
    \<Rightarrow> source_context list \<times> exn option" where
  "append_hits doc_id results i [] all_contexts = (all_contexts, None)"
| "append_hits doc_id results i (c # rest) all_contexts =
     (if i < length (distances results) then
        (let distance = distances results ! i
         in if distance < 1.5 then
              (if i < length (metadatas results) then
                 append_hits doc_id results (Suc i) rest
                   (all_contexts @
                      [\<lparr>content = c, metadata = metadatas results ! i,
                        similarity_score = 1 - distance,
                        document_id = doc_id,
                        source = ''Document: '' @ doc_id @ '' | Chunk: '' @ str_nat i\<rparr>])
               else (all_contexts, Some IndexError))
            else append_hits doc_id results (Suc i) rest all_contexts)
      else (all_contexts, Some IndexError))"

fun search_documents :: "chroma_client \<Rightarrow> string \<Rightarrow> int \<Rightarrow> string list \<Rightarrow> source_context list
    \<Rightarrow> source_context list" where
  "search_documents client q k_per_doc [] all_contexts = all_contexts"
| "search_documents client q k_per_doc (doc_id # rest) all_contexts =
     search_documents client q k_per_doc rest
       (case get_collection client doc_id of
          Inl e \<Rightarrow> all_contexts
        | Inr collection \<Rightarrow>
            (case query collection q k_per_doc of
               Inl e \<Rightarrow> all_contexts
             | Inr results \<Rightarrow>
                 fst (append_hits doc_id results 0 (documents results) all_contexts)))"

text \<open>
  \<^verbatim>\<open>all_contexts.sort(key=..., reverse=True)\<close> is a stable sort that keeps the order of
  elements with equal keys: the list is reversed, sorted stably in ascending order and
  reversed again. \<^verbatim>\<open>all_contexts[:10]\<close> is \<open>take 10\<close>.
\<close>

definition sort_reverse :: "('a \<Rightarrow> real) \<Rightarrow> 'a list \<Rightarrow> 'a list" where
  "sort_reverse key xs = rev (sort_key key (rev xs))"

definition retrieve_context_multiple_docs :: "chroma_client \<Rightarrow> string \<Rightarrow> string list \<Rightarrow> int
    \<Rightarrow> source_context list" where
  "retrieve_context_multiple_docs client q document_ids k_per_doc =
     take 10 (sort_reverse similarity_score (search_documents client q k_per_doc document_ids []))"

section \<open>Generation\<close>

text \<open>
  The generative model is an external collaborator. \<open>llm prompt\<close> stands for
  \<^verbatim>\<open>genai.GenerativeModel('gemini-2.0-flash').generate_content(prompt).text\<close>, which
  returns the text or raises. The functions below return their result together with
  the list of the prompts they submitted to the model.
\<close>

type_synonym generative_model = "string \<Rightarrow> exn + string"

definition rag_prompt :: "string \<Rightarrow> string \<Rightarrow> string" where
  "rag_prompt context_text user_question =
     ''\<newline>'' @
     ''    You are a helpful document analysis assistant. Analyze the following document content and answer the user's question.\<newline>'' @
     ''\<newline>'' @
     ''    DOCUMENT CONTENT:\<newline>'' @
     ''    '' @
     context_text @
     ''\<newline>'' @
     ''\<newline>'' @
     ''    USER QUESTION: '' @
     user_question @
     ''\<newline>'' @
     ''\<newline>'' @
     ''    INSTRUCTIONS:\<newline>'' @
     ''    1. Carefully read and analyze the document content provided\<newline>'' @
     ''    2. Answer the question based SOLELY on the information in the document content\<newline>'' @
     ''    3. If the document contains relevant information, provide a comprehensive answer\<newline>'' @
     ''    4. If the document doesn't directly answer the question but contains related information, share what you can infer\<newline>'' @
     ''    5. Be helpful and provide as much useful information as possible from the document\<newline>'' @
     ''    6. Only say you cannot find the answer if the document content is completely irrelevant\<newline>'' @
     ''\<newline>'' @
     ''    Please provide a helpful answer based on the document content:\<newline>'' @
     ''    ''"

definition generate_rag_response :: "generative_model \<Rightarrow> ('a context_item_scheme) list \<Rightarrow> string
    \<Rightarrow> (exn + string) \<times> string list" where
  "generate_rag_response llm context user_question =
     (if context = [] then
        (Inr ''I could not find relevant context in the document to answer that question.'', [])
      else
        (let context_text = str_join ''\<newline>---\<newline>'' (map content context);
             prompt = rag_prompt context_text user_question
         in (try_except (llm prompt)
               (\<lambda>e. Inr (''Error: The AI service failed to generate a response: '' @ str_exn e)),
             [prompt])))"

fun source_lines :: "nat \<Rightarrow> ('a context_item_scheme) list \<Rightarrow> string" where
  "source_lines i [] = []"
| "source_lines i (ctx # rest) =
     ''[Source '' @ str_nat (i + 1) @ '']: '' @ content ctx @ ''\<newline>\<newline>''
       @ source_lines (Suc i) rest"

fun documents_context_text :: "(string \<times> ('a context_item_scheme) list) list \<Rightarrow> string" where
  "documents_context_text [] = []"
| "documents_context_text ((doc_id, contexts) # rest) =
     ''\<newline>--- DOCUMENT: '' @ doc_id @ '' ---\<newline>'' @ source_lines 0 contexts
       @ documents_context_text rest"

definition sources_prompt :: "string \<Rightarrow> string \<Rightarrow> string" where
  "sources_prompt context_text user_question =
     ''\<newline>'' @
     ''    You are an expert document analysis assistant. Answer the question based ONLY on the provided context from multiple documents.\<newline>'' @
     ''    \<newline>'' @
     ''    IMPORTANT: \<newline>'' @
     ''    - Cite which document each piece of information comes from using the source labels\<newline>'' @
     ''    - If information comes from multiple documents, mention this\<newline>'' @
     ''    - If documents contradict each other, point this out\<newline>'' @
     ''    - Only use information from the provided contexts\<newline>'' @
     ''    \<newline>'' @
     ''    CONTEXT FROM MULTIPLE DOCUMENTS:\<newline>'' @
     ''    '' @
     context_text @
     ''\<newline>'' @
     ''    \<newline>'' @
     ''    QUESTION: '' @
     user_question @
     ''\<newline>'' @
     ''    \<newline>'' @
     ''    Provide a comprehensive answer that synthesizes information from all relevant documents, with clear source attribution.\<newline>'' @
     ''    ''"

definition generate_rag_response_with_sources :: "generative_model \<Rightarrow> ('a context_item_scheme) list
    \<Rightarrow> string \<Rightarrow> (string \<times> ('b context_item_scheme) list) list \<Rightarrow> (exn + string) \<times> string list" where
  "generate_rag_response_with_sources llm context user_question contexts_by_doc =
     (let context_text = documents_context_text contexts_by_doc;
          prompt = sources_prompt context_text user_question
      in (try_except (llm prompt) (\<lambda>e. Inr (''Error generating response: '' @ str_exn e)),
          [prompt]))"

section \<open>Summaries\<close>

definition overview_prompt :: "string \<Rightarrow> string" where
  "overview_prompt context_text =
     ''\<newline>'' @
     ''        You are an expert document analysis assistant. Provide a comprehensive overview of the following document.\<newline>'' @
     ''        \<newline>'' @
     ''        Focus on:\<newline>'' @
     ''        - Main topics and themes\<newline>'' @
     ''        - Key findings or conclusions\<newline>'' @
     ''        - Overall purpose and scope\<newline>'' @
     ''        - Important data points or statistics\<newline>'' @
     ''        \<newline>'' @
     ''        DOCUMENT CONTENT:\<newline>'' @
     ''        '' @
     context_text @
     ''\<newline>'' @
     ''        \<newline>'' @
     ''        Provide a concise yet informative summary (3-4 paragraphs). Focus on the most important information that gives a complete picture of the document.\<newline>'' @
     ''        ''"

definition key_points_prompt :: "string \<Rightarrow> string" where
  "key_points_prompt context_text =
     ''\<newline>'' @
     ''        Extract the key points and main ideas from this document. Focus on the most important information.\<newline>'' @
     ''        \<newline>'' @
     ''        DOCUMENT CONTENT:\<newline>'' @
     ''        '' @
     context_text @
     ''\<newline>'' @
     ''        \<newline>'' @
     ''        Provide a bullet-point list of the 5-7 most important points from the document.\<newline>'' @
     ''        ''"

definition executive_prompt :: "string \<Rightarrow> string" where
  "executive_prompt context_text =
     ''\<newline>'' @
     ''        Create an executive summary of this document suitable for quick understanding by busy professionals.\<newline>'' @
     ''        \<newline>'' @
     ''        DOCUMENT CONTENT:\<newline>'' @
     ''        '' @
     context_text @
     ''\<newline>'' @
     ''        \<newline>'' @
     ''        Provide a very concise summary (2-3 paragraphs) highlighting:\<newline>'' @
     ''        - Primary objective/purpose\<newline>'' @
     ''        - Main findings/conclusions\<newline>'' @
     ''        - Key recommendations or next steps\<newline>'' @
     ''        ''"

definition detailed_prompt :: "string \<Rightarrow> string" where
  "detailed_prompt context_text =
     ''\<newline>'' @
     ''        Provide a detailed, comprehensive analysis of this document covering all major aspects.\<newline>'' @
     ''        \<newline>'' @
     ''        DOCUMENT CONTENT:\<newline>'' @
     ''        '' @
     context_text @
     ''\<newline>'' @
     ''        \<newline>'' @
     ''        Provide an in-depth summary covering:\<newline>'' @
     ''        1. Introduction and context\<newline>'' @
     ''        2. Main content and analysis\<newline>'' @
     ''        3. Key findings and data\<newline>'' @
     ''        4. Conclusions and implications\<newline>'' @
     ''        5. Recommendations (if any)\<newline>'' @
     ''        ''"

text \<open>The dictionary \<^verbatim>\<open>prompts\<close>, in the order of its keys.\<close>

definition prompts :: "string \<Rightarrow> (string \<times> string) list" where
  "prompts context_text =
     [(''overview'', overview_prompt context_text),
      (''key_points'', key_points_prompt context_text),
      (''executive'', executive_prompt context_text),
      (''detailed'', detailed_prompt context_text)]"

text \<open>
  \<^verbatim>\<open>prompts.get(summary_type, prompts["overview"])\<close> evaluates the default first; a
  missing key there would raise \<^verbatim>\<open>KeyError\<close>, outside the \<^verbatim>\<open>try\<close>.
\<close>

definition summary_prompt :: "string list \<Rightarrow> string \<Rightarrow> exn + string" where
  "summary_prompt chunks summary_type =
     (let context_text = str_join ''\<newline>'' (take 15 chunks)
      in case map_of (prompts context_text) ''overview'' of
           None \<Rightarrow> Inl (Exception ''KeyError'')
         | Some dflt \<Rightarrow>
             Inr (case map_of (prompts context_text) summary_type of
                    Some p \<Rightarrow> p
                  | None \<Rightarrow> dflt))"

definition generate_document_summary :: "generative_model \<Rightarrow> string \<Rightarrow> string list \<Rightarrow> string
    \<Rightarrow> (exn + string) \<times> string list" where
  "generate_document_summary llm doc_id chunks summary_type =
     (case summary_prompt chunks summary_type of
        Inl e \<Rightarrow> (Inl e, [])
      | Inr prompt \<Rightarrow>
          (try_except (llm prompt)
             (\<lambda>e. Inr (''Unable to generate '' @ summary_type @ '' summary at this time.'')),
           [prompt]))"

section \<open>Parsing\<close>

text \<open>
  The parsing libraries, the text splitter and the identifier generator are external
  collaborators. \<open>PdfReader data\<close> raises or gives the pages; a page is the outcome of
  \<^verbatim>\<open>page.extract_text()\<close>, an exception or a text. \<open>DocxDocument data\<close> raises or gives
  the texts of the paragraphs. \<open>decode_utf8\<close> is \<^verbatim>\<open>file_data.decode('utf-8')\<close>.
\<close>

record libraries =
  PdfReader :: "bytes \<Rightarrow> exn + (exn + string) list"
  DocxDocument :: "bytes \<Rightarrow> exn + string list"
  decode_utf8 :: "bytes \<Rightarrow> exn + string"
  split_text :: "string \<Rightarrow> string list"
  uuid4 :: string

definition parse_docx :: "libraries \<Rightarrow> bytes \<Rightarrow> exn + string" where
  "parse_docx env file_data =
     try_except
       (case DocxDocument env file_data of
          Inl e \<Rightarrow> Inl e
        | Inr paragraphs \<Rightarrow>
            Inr (str_join ''\<newline>'' (filter (\<lambda>t. str_strip t \<noteq> []) paragraphs)))
       (\<lambda>e. Inl (HTTPException 500 (''DOCX Parsing Error: '' @ str_exn e)))"

text \<open>
  The page loop of \<open>parse_pdf\<close> (lines 86 to 105): \<open>page_num\<close> counts from 0, a page
  whose extraction raises is skipped.
\<close>

fun pdf_pages :: "nat \<Rightarrow> (exn + string) list \<Rightarrow> string \<Rightarrow> string" where
  "pdf_pages page_num [] text = text"
| "pdf_pages page_num (page # pages) text =
     (case page of
        Inl page_error \<Rightarrow> pdf_pages (Suc page_num) pages text
      | Inr page_text \<Rightarrow>
          if page_text \<noteq> [] \<and> str_strip page_text \<noteq> [] then
            (let page_text = str_join '' '' (str_split page_text)
             in if length (str_strip page_text) > 10 then
                  pdf_pages (Suc page_num) pages
                    (text @ ''Page '' @ str_nat (page_num + 1) @ '':\<newline>'' @ page_text
                       @ ''\<newline>\<newline>'')
                else pdf_pages (Suc page_num) pages text)
          else pdf_pages (Suc page_num) pages text)"

text \<open>
  \<open>parse_pdf\<close>, the live body (lines 78 to 118). The \<^verbatim>\<open>HTTPException\<close> raised for an
  empty text is raised inside the \<^verbatim>\<open>try\<close> and caught by its \<^verbatim>\<open>except Exception\<close>.
\<close>

definition parse_pdf :: "libraries \<Rightarrow> bytes \<Rightarrow> exn + string" where
  "parse_pdf env file_data =
     try_except
       (case PdfReader env file_data of
          Inl e \<Rightarrow> Inl e
        | Inr pages \<Rightarrow>
            (let text = pdf_pages 0 pages []
             in if str_strip text = [] then
                  Inl (HTTPException 500
                         ''PDF appears to be empty or contains no extractable text'')
                else Inr text))
       (\<lambda>e. Inl (HTTPException 500 (''PDF Parsing Error: '' @ str_exn e)))"

definition parse_txt :: "libraries \<Rightarrow> bytes \<Rightarrow> exn + string" where
  "parse_txt env file_data = decode_utf8 env file_data"

section \<open>Endpoints\<close>

text \<open>A JSON value; a response body is a dictionary, kept in the order of its keys.\<close>

datatype json = JStr string | JInt int | JNum real | JArr "json list" | JObj "(string \<times> json) list"

type_synonym response = "(string \<times> json) list"

text \<open>
  The status FastAPI answers with: 200 for a returned body, the status code of a raised
  \<^verbatim>\<open>HTTPException\<close>, 500 for any other exception.
\<close>

fun http_status :: "exn + response \<Rightarrow> int" where
  "http_status (Inr body) = 200"
| "http_status (Inl (HTTPException status_code detail)) = status_code"
| "http_status (Inl (Exception msg)) = 500"

text \<open>
  \<open>insert_chunks_to_chroma\<close>. What \<^verbatim>\<open>collection.add\<close> stores is not read back by any
  function modelled here, so only its outcome is kept.
\<close>

definition insert_chunks_to_chroma :: "chroma_client \<Rightarrow> string list \<Rightarrow> string \<Rightarrow> exn + string" where
  "insert_chunks_to_chroma client chunks doc_id =
     try_except
       (case get_or_create_collection client doc_id of
          Inl e \<Rightarrow> Inl e
        | Inr collection \<Rightarrow>
            (let ids = map (\<lambda>i. ''chunk_'' @ str_nat i) [0..<length chunks];
                 metas = map (\<lambda>i. [(''chunk_index'', int i)]) [0..<length chunks]
             in case add collection chunks metas ids of
                  Inl e \<Rightarrow> Inl e
                | Inr u \<Rightarrow> Inr doc_id))
       (\<lambda>e. Inl (HTTPException 500 (''Database error during indexing: '' @ str_exn e)))"

text \<open>The value of \<^verbatim>\<open>raw_text\<close> in \<open>index_document\<close>, or the exception raised before.\<close>

definition file_extension :: "string \<Rightarrow> string" where
  "file_extension filename = str_lower (snd (splitext filename))"

definition parse_upload :: "libraries \<Rightarrow> string \<Rightarrow> bytes \<Rightarrow> exn + string" where
  "parse_upload env filename file_data =
     (if file_extension filename = ''.pdf'' then parse_pdf env file_data
      else if file_extension filename = ''.docx'' then parse_docx env file_data
      else if file_extension filename = ''.txt'' then parse_txt env file_data
      else Inl (HTTPException 400 (''Unsupported file type: '' @ file_extension filename)))"

definition index_document :: "libraries \<Rightarrow> chroma_client \<Rightarrow> string \<Rightarrow> bytes \<Rightarrow> exn + response" where
  "index_document env client filename file_data =
     (case parse_upload env filename file_data of
        Inl e \<Rightarrow> Inl e
      | Inr raw_text \<Rightarrow>
          if str_strip raw_text = [] then
            Inl (HTTPException 422 ''Could not extract any meaningful text.'')
          else
            (let chunks = split_text env raw_text;
                 doc_id = uuid4 env
             in case insert_chunks_to_chroma client chunks doc_id of
                  Inl e \<Rightarrow> Inl e
                | Inr indexed_collection_id \<Rightarrow>
                    Inr [(''status'', JStr ''success''),
                         (''document_id'', JStr indexed_collection_id),
                         (''filename'', JStr filename),
                         (''total_chunks_indexed'', JInt (int (length chunks)))]))"

text \<open>
  The body of \<^verbatim>\<open>POST /qa/ask-multiple\<close>. \<open>document_ids\<close> and \<open>question\<close> are the values
  under these keys of the request, \<open>None\<close> when the key is absent.
\<close>

record ask_multiple_request =
  document_ids :: "string list option"
  question :: "string option"

fun add_to_group :: "source_context \<Rightarrow> (string \<times> source_context list) list
    \<Rightarrow> (string \<times> source_context list) list" where
  "add_to_group c [] = [(document_id c, [c])]"
| "add_to_group c ((d, cs) # rest) =
     (if d = document_id c then (d, cs @ [c]) # rest else (d, cs) # add_to_group c rest)"

fun group_by_document :: "source_context list \<Rightarrow> (string \<times> source_context list) list
    \<Rightarrow> (string \<times> source_context list) list" where
  "group_by_document [] contexts_by_doc = contexts_by_doc"
| "group_by_document (c # cs) contexts_by_doc = group_by_document cs (add_to_group c contexts_by_doc)"

definition source_metadata_multiple :: "source_context list \<Rightarrow> json list" where
  "source_metadata_multiple context_data =
     map (\<lambda>c. JObj [(''document_id'', JStr (document_id c)),
                    (''content_preview'', JStr (take 200 (content c) @ ''...'')),
                    (''similarity'', JNum (similarity_score c)),
                    (''source_info'', JStr (source c))])
       context_data"

definition contextual_qa_multiple :: "chroma_client \<Rightarrow> generative_model \<Rightarrow> ask_multiple_request
    \<Rightarrow> exn + response" where
  "contextual_qa_multiple client llm data =
     (let doc_ids = (case document_ids data of None \<Rightarrow> [] | Some ds \<Rightarrow> ds);
          qn = (case question data of None \<Rightarrow> [] | Some s \<Rightarrow> s)
      in if doc_ids = [] \<or> qn = [] then
           Inl (HTTPException 400 ''Missing document_ids or question.'')
         else
           (let context_data = retrieve_context_multiple_docs client qn doc_ids 3
            in if context_data = [] then
                 Inr [(''answer'', JStr ''I could not find relevant context in the selected documents to answer that question.''),
                      (''sources'', JArr [])]
               else
                 (let contexts_by_doc = group_by_document context_data [];
                      answer = fst (generate_rag_response_with_sources llm context_data qn contexts_by_doc);
                      source_metadata = source_metadata_multiple context_data
                  in case answer of
                       Inl e \<Rightarrow> Inl e
                     | Inr text \<Rightarrow> Inr [(''answer'', JStr text)])))"

section \<open>Failures outside class Exception\<close>

text \<open>
  The handlers of \<open>retrieve_context\<close> are \<^verbatim>\<open>except Exception\<close>. What an operation of the
  store raises need not be of class \<^verbatim>\<open>Exception\<close>: \<^verbatim>\<open>KeyboardInterrupt\<close>,
  \<^verbatim>\<open>SystemExit\<close>, \<^verbatim>\<open>asyncio.CancelledError\<close> and the panic of a native extension derive
  from \<^verbatim>\<open>BaseException\<close> only, and such a handler does not catch them. \<open>raised\<close> is
  anything that can be raised: \<open>Exc e\<close> of class \<^verbatim>\<open>Exception\<close>, or \<open>BaseExc name\<close>
  outside it.
\<close>

datatype raised = Exc exn | BaseExc string

text \<open>\<^verbatim>\<open>try: body  except Exception as e: handler(e)\<close>, for a body that can raise anything.\<close>

definition except_Exception :: "raised + 'a \<Rightarrow> (exn \<Rightarrow> raised + 'a) \<Rightarrow> raised + 'a" where
  "except_Exception body handler =
     (case body of
        Inl (Exc e) \<Rightarrow> handler e
      | Inl (BaseExc b) \<Rightarrow> Inl (BaseExc b)
      | Inr v \<Rightarrow> Inr v)"

text \<open>The operations of the store that \<open>retrieve_context\<close> calls, raising anything.\<close>

record collection_base =
  count_base :: "raised + int"
  query_base :: "string \<Rightarrow> int \<Rightarrow> raised + query_result"

record client_base =
  get_collection_base :: "string \<Rightarrow> raised + collection_base"

text \<open>
  \<open>retrieve_context\<close> (lines 171 to 229) over such a store. The first \<^verbatim>\<open>try\<close> gives the
  collection and its count, or returns \<open>[]\<close> from its handler (\<open>None\<close> below); the
  second \<^verbatim>\<open>try\<close> holds the query and the loop. The result is \<open>Inl r\<close> if the function
  raises \<open>r\<close>.
\<close>

definition retrieve_context_base :: "client_base \<Rightarrow> string \<Rightarrow> string \<Rightarrow> int
    \<Rightarrow> raised + context_item list" where
  "retrieve_context_base client q doc_id k =
     (case except_Exception
             (case get_collection_base client doc_id of
                Inl r \<Rightarrow> Inl r
              | Inr collection \<Rightarrow>
                  (case count_base collection of
                     Inl r \<Rightarrow> Inl r
                   | Inr collection_count \<Rightarrow> Inr (Some (collection, collection_count))))
             (\<lambda>e. Inr None) of
        Inl r \<Rightarrow> Inl r
      | Inr None \<Rightarrow> Inr []
      | Inr (Some (collection, collection_count)) \<Rightarrow>
          if collection_count = 0 then Inr []
          else except_Exception
                 (case query_base collection q (min k collection_count) of
                    Inl r \<Rightarrow> Inl r
                  | Inr results \<Rightarrow>
                      (case context_loop results 0 (documents results) [] of
                         Inl e \<Rightarrow> Inl (Exc e)
                       | Inr context_data \<Rightarrow> Inr context_data))
                 (\<lambda>e. Inr []))"

text \<open>A store whose failures are all of class \<^verbatim>\<open>Exception\<close>, as a store that can raise anything.\<close>

definition lift_result :: "exn + 'a \<Rightarrow> raised + 'a" where
  "lift_result r = (case r of Inl e \<Rightarrow> Inl (Exc e) | Inr v \<Rightarrow> Inr v)"

definition lift_collection :: "collection \<Rightarrow> collection_base" where
  "lift_collection c =
     \<lparr>count_base = lift_result (count c),
      query_base = (\<lambda>q n. lift_result (query c q n))\<rparr>"

definition lift_client :: "chroma_client \<Rightarrow> client_base" where
  "lift_client client =
     \<lparr>get_collection_base =
        (\<lambda>name. case get_collection client name of
                   Inl e \<Rightarrow> Inl (Exc e)
                 | Inr c \<Rightarrow> Inr (lift_collection c))\<rparr>"

section \<open>Example inputs\<close>

text \<open>
  A store with five collections: \<open>doc-1\<close> holds three chunks, \<open>doc-empty\<close> holds none,
  counting \<open>doc-locked\<close> fails, querying \<open>doc-broken\<close> fails and \<open>doc-ragged\<close> answers
  a query with fewer distances than documents. Any other name does not exist.
\<close>

definition example_results :: query_result where
  "example_results =
     \<lparr>documents = [''alpha'', ''beta'', ''gamma''],
      metadatas = [[(''chunk_index'', 0)], [(''chunk_index'', 1)], [(''chunk_index'', 2)]],
      distances = [1.2, 1.5, 0.4]\<rparr>"

definition example_collection :: collection where
  "example_collection =
     \<lparr>count = Inr 3,
      query = (\<lambda>q n. if n \<le> 0 then Inl (Exception ''n_results must be positive'')
                      else Inr \<lparr>documents = take (nat n) (documents example_results),
                                metadatas = take (nat n) (metadatas example_results),
                                distances = take (nat n) (distances example_results)\<rparr>),
      add = (\<lambda>docs metas ids. Inr ())\<rparr>"

definition empty_collection :: collection where
  "empty_collection =
     \<lparr>count = Inr 0,
      query = (\<lambda>q n. Inl (Exception ''n_results must be positive'')),
      add = (\<lambda>docs metas ids. Inr ())\<rparr>"

definition locked_collection :: collection where
  "locked_collection =
     \<lparr>count = Inl (Exception ''database is locked''),
      query = (\<lambda>q n. Inl (Exception ''database is locked'')),
      add = (\<lambda>docs metas ids. Inl (Exception ''database is locked''))\<rparr>"

definition broken_collection :: collection where
  "broken_collection =
     \<lparr>count = Inr 3,
      query = (\<lambda>q n. Inl (Exception ''index not found'')),
      add = (\<lambda>docs metas ids. Inr ())\<rparr>"

definition ragged_collection :: collection where
  "ragged_collection =
     \<lparr>count = Inr 2,
      query = (\<lambda>q n. Inr \<lparr>documents = [''alpha'', ''beta''],
                             metadatas = [[(''chunk_index'', 0)], [(''chunk_index'', 1)]],
                             distances = [0.3]\<rparr>),
      add = (\<lambda>docs metas ids. Inr ())\<rparr>"

definition example_client :: chroma_client where
  "example_client =
     \<lparr>get_collection =
        (\<lambda>name. if name = ''doc-1'' then Inr example_collection
                 else if name = ''doc-empty'' then Inr empty_collection
                 else if name = ''doc-locked'' then Inr locked_collection
                 else if name = ''doc-broken'' then Inr broken_collection
                 else if name = ''doc-ragged'' then Inr ragged_collection
                 else Inl (Exception ''Collection does not exist'')),
      get_or_create_collection = (\<lambda>name. Inr example_collection)\<rparr>"

text \<open>A model whose every call fails, and one that always answers.\<close>

definition failing_model :: generative_model where
  "failing_model = (\<lambda>prompt. Inl (Exception ''429 quota exceeded''))"

definition answering_model :: generative_model where
  "answering_model = (\<lambda>prompt. Inr ''The documents agree.'')"

text \<open>
  Libraries that find no usable text: a PDF of three pages (an empty one, one that fails
  and one that holds a page number), a DOCX of blank paragraphs, a text file of blanks.
\<close>

definition blank_pages :: "(exn + string) list" where
  "blank_pages = [Inr '''', Inl (Exception ''unsupported font''), Inr '' 7 '']"

definition blank_libraries :: libraries where
  "blank_libraries =
     \<lparr>PdfReader = (\<lambda>data. Inr blank_pages),
      DocxDocument = (\<lambda>data. Inr [''  '', '''']),
      decode_utf8 = (\<lambda>data. Inr '' \<newline> ''),
      split_text = (\<lambda>text. [text]),
      uuid4 = ''0b7e''\<rparr>"

definition ask_both :: ask_multiple_request where
  "ask_both = \<lparr>document_ids = Some [''doc-0'', ''doc-1''], question = Some ''what''\<rparr>"



text \<open>A model that fails on one prompt of \<open>generate_rag_response\<close> and on no other prompt.\<close>

definition rag_only_model :: generative_model where
  "rag_only_model =
     (\<lambda>prompt. if prompt = rag_prompt ''alpha'' ''what''
                then Inl (Exception ''429 quota exceeded'')
                else Inr ''The documents agree.'')"

section \<open>Properties\<close>

lemma try_except_Inr [simp]: "try_except (Inr v) h = Inr v"
  by (simp add: try_except_def)

lemma try_except_Inl [simp]: "try_except (Inl e) h = h e"
  by (simp add: try_except_def)

subsection \<open>Single-document retrieval\<close>

lemma context_loop_enumerate:
  "i + length ds \<le> length (distances r) \<Longrightarrow> i + length ds \<le> length (metadatas r) \<Longrightarrow>
   context_loop r i ds acc =
     Inr (acc @ map (\<lambda>(j, c). \<lparr>content = c, metadata = metadatas r ! j,
                               similarity_score = 1 - distances r ! j / 2\<rparr>) (enumerate i ds))"
  by (induction ds arbitrary: i acc) (simp_all add: Let_def)

lemma retrieve_context_found:
  assumes "get_collection client doc_id = Inr coll" and "count coll = Inr n" and "n \<noteq> 0"
  shows "retrieve_context client q doc_id k =
           try_except
             (case query coll q (min k n) of
                Inl e \<Rightarrow> Inl e
              | Inr results \<Rightarrow> context_loop results 0 (documents results) [])
             (\<lambda>e. Inr [])"
  using assms by (simp add: retrieve_context_def)

text \<open>
  Claim C5. For every query and every document identifier whose collection does not
  exist (\<open>get_collection\<close> raises, as for an identifier never indexed) or holds zero
  entries, \<open>retrieve_context\<close> returns the empty list and raises nothing.
\<close>

theorem retrieve_context_absent_or_empty:
  assumes "(\<exists>e. get_collection client doc_id = Inl e)
         \<or> (\<exists>coll. get_collection client doc_id = Inr coll \<and> count coll = Inr 0)"
  shows "retrieve_context client q doc_id k = Inr []"
  using assms by (auto simp: retrieve_context_def)

theorem retrieve_context_absent_or_empty_witness:
  "retrieve_context example_client ''what'' ''never-indexed'' 5 = Inr []
   \<and> retrieve_context example_client ''what'' ''doc-empty'' 5 = Inr []"
proof -
  have absent: "(\<exists>e. get_collection example_client ''never-indexed'' = Inl e)
         \<or> (\<exists>coll. get_collection example_client ''never-indexed'' = Inr coll \<and> count coll = Inr 0)"
    by (simp add: example_client_def)
  have empty: "(\<exists>e. get_collection example_client ''doc-empty'' = Inl e)
         \<or> (\<exists>coll. get_collection example_client ''doc-empty'' = Inr coll \<and> count coll = Inr 0)"
    by (simp add: example_client_def empty_collection_def)
  show ?thesis
    using retrieve_context_absent_or_empty[OF absent, of "''what''" 5]
      retrieve_context_absent_or_empty[OF empty, of "''what''" 5]
    by (rule conjI)
qed

lemma retrieve_context_base_lift:
  "retrieve_context_base (lift_client client) q doc_id k =
     lift_result (retrieve_context client q doc_id k)"
proof (cases "get_collection client doc_id")
  case (Inl e)
  then show ?thesis
    by (simp add: retrieve_context_base_def retrieve_context_def lift_client_def
        except_Exception_def lift_result_def)
next
  case got: (Inr coll)
  show ?thesis
  proof (cases "count coll")
    case (Inl e)
    with got show ?thesis
      by (simp add: retrieve_context_base_def retrieve_context_def lift_client_def
          lift_collection_def except_Exception_def lift_result_def)
  next
    case counted: (Inr n)
    show ?thesis
    proof (cases "query coll q (min k n)")
      case (Inl e)
      with got counted show ?thesis
        by (simp add: retrieve_context_base_def retrieve_context_def lift_client_def
            lift_collection_def except_Exception_def lift_result_def)
    next
      case (Inr results)
      with got counted show ?thesis
        by (cases "context_loop results 0 (documents results) []")
           (simp_all add: retrieve_context_base_def retrieve_context_def lift_client_def
             lift_collection_def except_Exception_def lift_result_def)
    qed
  qed
qed






text \<open>
  Claim C3. Over an existing, non-empty collection whose query answers with lists of
  equal length and at most \<open>n_results\<close> entries, \<open>retrieve_context\<close> returns every
  result of the query in order, with no filtering by distance, at most \<open>k\<close> of them,
  each with the similarity score \<open>1 - distance / 2\<close>.
\<close>

theorem retrieve_context_keeps_every_result:
  assumes "get_collection client doc_id = Inr coll" and "count coll = Inr n" and "n \<noteq> 0"
    and "query coll q (min k n) = Inr results"
    and "length (distances results) = length (documents results)"
    and "length (metadatas results) = length (documents results)"
    and "int (length (documents results)) \<le> min k n"
  shows "retrieve_context client q doc_id k =
           Inr (map (\<lambda>(i, c). \<lparr>content = c, metadata = metadatas results ! i,
                                similarity_score = 1 - distances results ! i / 2\<rparr>)
                  (enumerate 0 (documents results)))
         \<and> int (length (documents results)) \<le> k"
proof -
  have "context_loop results 0 (documents results) [] =
          Inr ([] @ map (\<lambda>(i, c). \<lparr>content = c, metadata = metadatas results ! i,
                                similarity_score = 1 - distances results ! i / 2\<rparr>)
                  (enumerate 0 (documents results)))"
    by (rule context_loop_enumerate) (simp_all add: assms(5,6))
  then show ?thesis
    using retrieve_context_found[OF assms(1-3), of q k] assms(4,7) by simp
qed

theorem retrieve_context_keeps_every_result_witness:
  "retrieve_context example_client ''what'' ''doc-1'' 5 =
     Inr [\<lparr>content = ''alpha'', metadata = [(''chunk_index'', 0)], similarity_score = 2 / 5\<rparr>,
          \<lparr>content = ''beta'', metadata = [(''chunk_index'', 1)], similarity_score = 1 / 4\<rparr>,
          \<lparr>content = ''gamma'', metadata = [(''chunk_index'', 2)], similarity_score = 4 / 5\<rparr>]"
proof -
  have 1: "get_collection example_client ''doc-1'' = Inr example_collection"
    by (simp add: example_client_def)
  have 2: "count example_collection = Inr 3" by (simp add: example_collection_def)
  have 3: "(3::int) \<noteq> 0" by simp
  have 4: "query example_collection ''what'' (min 5 3) = Inr example_results"
    by (simp add: example_collection_def example_results_def)
  have 5: "length (distances example_results) = length (documents example_results)"
    by (simp add: example_results_def)
  have 6: "length (metadatas example_results) = length (documents example_results)"
    by (simp add: example_results_def)
  have 7: "int (length (documents example_results)) \<le> min 5 3"
    by (simp add: example_results_def)
  show ?thesis
    using retrieve_context_keeps_every_result[OF 1 2 3 4 5 6 7]
    by (simp add: example_results_def enumerate_eq_zip upt_rec)
qed

subsection \<open>Multi-document retrieval\<close>

lemma append_hits_pres:
  assumes acc: "\<forall>c\<in>set acc. P c"
    and hit: "\<And>j c. (j, c) \<in> set (enumerate i ds) \<Longrightarrow> j < length (distances r) \<Longrightarrow>
           j < length (metadatas r) \<Longrightarrow> distances r ! j < 1.5 \<Longrightarrow>
           P \<lparr>content = c, metadata = metadatas r ! j, similarity_score = 1 - distances r ! j,
              document_id = d, source = ''Document: '' @ d @ '' | Chunk: '' @ str_nat j\<rparr>"
  shows "\<forall>c\<in>set (fst (append_hits d r i ds acc)). P c"
  using acc hit
proof (induction ds arbitrary: i acc)
  case Nil
  then show ?case by simp
next
  case (Cons a ds)
  have later: "P \<lparr>content = c, metadata = metadatas r ! j, similarity_score = 1 - distances r ! j,
              document_id = d, source = ''Document: '' @ d @ '' | Chunk: '' @ str_nat j\<rparr>"
    if "(j, c) \<in> set (enumerate (Suc i) ds)" "j < length (distances r)"
       "j < length (metadatas r)" "distances r ! j < 1.5" for j c
    using that Cons.prems(2)[of j c] by simp
  show ?case
  proof (cases "i < length (distances r)")
    case False
    then show ?thesis using Cons.prems(1) by simp
  next
    case inr: True
    show ?thesis
    proof (cases "distances r ! i < 1.5")
      case False
      then have "append_hits d r i (a # ds) acc = append_hits d r (Suc i) ds acc"
        using inr by simp
      then show ?thesis using Cons.IH[OF Cons.prems(1) later] by simp
    next
      case near: True
      show ?thesis
      proof (cases "i < length (metadatas r)")
        case False
        then show ?thesis using inr near Cons.prems(1) by simp
      next
        case True
        let ?h = "\<lparr>content = a, metadata = metadatas r ! i, similarity_score = 1 - distances r ! i,
              document_id = d, source = ''Document: '' @ d @ '' | Chunk: '' @ str_nat i\<rparr>"
        have "P ?h" using Cons.prems(2)[of i a] inr near True by simp
        then have acc': "\<forall>c\<in>set (acc @ [?h]). P c" using Cons.prems(1) by simp
        have "append_hits d r i (a # ds) acc = append_hits d r (Suc i) ds (acc @ [?h])"
          using inr near True by simp
        then show ?thesis using Cons.IH[OF acc' later] by simp
      qed
    qed
  qed
qed

lemma search_documents_pres:
  assumes "\<forall>c\<in>set acc. P c"
    and "\<And>d coll r j. d \<in> set ids \<Longrightarrow> get_collection client d = Inr coll \<Longrightarrow>
           query coll q k = Inr r \<Longrightarrow> j < length (documents r) \<Longrightarrow>
           j < length (distances r) \<Longrightarrow> j < length (metadatas r) \<Longrightarrow>
           distances r ! j < 1.5 \<Longrightarrow>
           P \<lparr>content = documents r ! j, metadata = metadatas r ! j,
              similarity_score = 1 - distances r ! j,
              document_id = d, source = ''Document: '' @ d @ '' | Chunk: '' @ str_nat j\<rparr>"
  shows "\<forall>c\<in>set (search_documents client q k ids acc). P c"
  using assms
proof (induction ids arbitrary: acc)
  case Nil
  then show ?case by simp
next
  case (Cons d ids)
  let ?acc' = "(case get_collection client d of
          Inl e \<Rightarrow> acc
        | Inr collection \<Rightarrow>
            (case query collection q k of
               Inl e \<Rightarrow> acc
             | Inr results \<Rightarrow>
                 fst (append_hits d results 0 (documents results) acc)))"
  have "\<forall>c\<in>set ?acc'. P c"
  proof (cases "get_collection client d")
    case (Inl e)
    then show ?thesis using Cons.prems(1) by simp
  next
    case (Inr coll)
    show ?thesis
    proof (cases "query coll q k")
      case (Inl e)
      then show ?thesis using Inr Cons.prems(1) by simp
    next
      case res: (Inr r)
      have "\<forall>c\<in>set (fst (append_hits d r 0 (documents r) acc)). P c"
      proof (rule append_hits_pres[OF Cons.prems(1)])
        fix j c
        assume jc: "(j, c) \<in> set (enumerate 0 (documents r))" and
          "j < length (distances r)" "j < length (metadatas r)" "distances r ! j < 1.5"
        from jc have "j < length (documents r)" "c = documents r ! j"
          by (auto simp: in_set_enumerate_eq)
        then show "P \<lparr>content = c, metadata = metadatas r ! j, similarity_score = 1 - distances r ! j,
              document_id = d, source = ''Document: '' @ d @ '' | Chunk: '' @ str_nat j\<rparr>"
          using Cons.prems(2)[of d coll r j] Inr res \<open>j < length (distances r)\<close>
            \<open>j < length (metadatas r)\<close> \<open>distances r ! j < 1.5\<close> by simp
      qed
      then show ?thesis using Inr res by simp
    qed
  qed
  then have "\<forall>c\<in>set (search_documents client q k ids ?acc'). P c"
    by (rule Cons.IH) (use Cons.prems(2) in auto)
  then show ?case by simp
qed

lemma set_sort_reverse [simp]: "set (sort_reverse key xs) = set xs"
  by (simp add: sort_reverse_def)

lemma sorted_sort_reverse:
  "sorted_wrt (\<lambda>a b. key a \<ge> key b) (sort_reverse key xs)"
proof -
  have "sorted (map key (sort_key key (rev xs)))" by (rule sorted_sort_key)
  then have "sorted_wrt (\<lambda>a b. key a \<le> key b) (sort_key key (rev xs))"
    by (simp add: sorted_wrt_map)
  then show ?thesis
    by (simp add: sort_reverse_def sorted_wrt_rev)
qed

text \<open>
  Claim C2. The list returned by \<open>retrieve_context_multiple_docs\<close> has at most 10
  elements, is sorted by non-increasing \<open>similarity_score\<close>, and each element was built
  from an entry of a query result of one of the requested documents whose distance is
  below 1.5: it carries that document's identifier and the source label
  \<^verbatim>\<open>Document: <id> | Chunk: <i>\<close>.
\<close>

theorem retrieve_context_multiple_docs_result:
  "length (retrieve_context_multiple_docs client q ids k) \<le> 10
   \<and> sorted_wrt (\<lambda>a b. similarity_score a \<ge> similarity_score b)
        (retrieve_context_multiple_docs client q ids k)
   \<and> (\<forall>c \<in> set (retrieve_context_multiple_docs client q ids k).
        \<exists>d coll r j. d \<in> set ids \<and> get_collection client d = Inr coll \<and> query coll q k = Inr r
          \<and> j < length (documents r) \<and> j < length (distances r) \<and> j < length (metadatas r)
          \<and> distances r ! j < 1.5
          \<and> c = \<lparr>content = documents r ! j, metadata = metadatas r ! j,
                  similarity_score = 1 - distances r ! j, document_id = d,
                  source = ''Document: '' @ d @ '' | Chunk: '' @ str_nat j\<rparr>)"
proof (intro conjI)
  show "length (retrieve_context_multiple_docs client q ids k) \<le> 10"
    by (simp add: retrieve_context_multiple_docs_def)
  show "sorted_wrt (\<lambda>a b. similarity_score a \<ge> similarity_score b)
        (retrieve_context_multiple_docs client q ids k)"
    unfolding retrieve_context_multiple_docs_def
    by (rule sorted_wrt_take) (rule sorted_sort_reverse)
  let ?P = "\<lambda>c. \<exists>d coll r j. d \<in> set ids \<and> get_collection client d = Inr coll \<and> query coll q k = Inr r
          \<and> j < length (documents r) \<and> j < length (distances r) \<and> j < length (metadatas r)
          \<and> distances r ! j < 1.5
          \<and> c = \<lparr>content = documents r ! j, metadata = metadatas r ! j,
                  similarity_score = 1 - distances r ! j, document_id = d,
                  source = ''Document: '' @ d @ '' | Chunk: '' @ str_nat j\<rparr>"
  have "\<forall>c\<in>set (search_documents client q k ids []). ?P c"
    by (rule search_documents_pres) (simp, blast)
  moreover have "set (retrieve_context_multiple_docs client q ids k)
      \<subseteq> set (search_documents client q k ids [])"
    unfolding retrieve_context_multiple_docs_def
    using set_take_subset[of 10 "sort_reverse similarity_score (search_documents client q k ids [])"]
    by simp
  ultimately show "\<forall>c \<in> set (retrieve_context_multiple_docs client q ids k). ?P c"
    by blast
qed

lemma example_search:
  "search_documents example_client ''what'' 3 [''doc-0'', ''doc-1''] [] =
     [\<lparr>content = ''alpha'', metadata = [(''chunk_index'', 0)],
        similarity_score = - (1 / 5), document_id = ''doc-1'',
        source = ''Document: doc-1 | Chunk: '' @ str_nat 0\<rparr>,
      \<lparr>content = ''gamma'', metadata = [(''chunk_index'', 2)],
        similarity_score = 3 / 5, document_id = ''doc-1'',
        source = ''Document: doc-1 | Chunk: '' @ str_nat 2\<rparr>]"
  by (simp add: example_client_def example_collection_def example_results_def numeral_2_eq_2)

lemma sort_reverse_Nil_iff: "sort_reverse key xs = [] \<longleftrightarrow> xs = []"
  using length_sort[of key "rev xs"] unfolding sort_reverse_def
  by (metis length_0_conv length_rev)

lemma str_nat_0: "str_nat 0 = ''0''" by code_simp
lemma str_nat_2: "str_nat 2 = ''2''" by code_simp

lemma example_ranked:
  "retrieve_context_multiple_docs example_client ''what'' [''doc-0'', ''doc-1''] 3 =
     [\<lparr>content = ''gamma'', metadata = [(''chunk_index'', 2)],
        similarity_score = 3 / 5, document_id = ''doc-1'',
        source = ''Document: doc-1 | Chunk: 2''\<rparr>,
      \<lparr>content = ''alpha'', metadata = [(''chunk_index'', 0)],
        similarity_score = - (1 / 5), document_id = ''doc-1'',
        source = ''Document: doc-1 | Chunk: 0''\<rparr>]"
  unfolding retrieve_context_multiple_docs_def example_search sort_reverse_def str_nat_0 str_nat_2
  by simp

theorem retrieve_context_multiple_docs_result_witness:
  "\<lparr>content = ''gamma'', metadata = [(''chunk_index'', 2)],
     similarity_score = 3 / 5, document_id = ''doc-1'',
     source = ''Document: doc-1 | Chunk: 2''\<rparr>
     \<in> set (retrieve_context_multiple_docs example_client ''what'' [''doc-0'', ''doc-1''] 3)
   \<and> (\<exists>d coll r j. d \<in> set [''doc-0'', ''doc-1''] \<and> get_collection example_client d = Inr coll
          \<and> query coll ''what'' 3 = Inr r
          \<and> j < length (documents r) \<and> j < length (distances r) \<and> j < length (metadatas r)
          \<and> distances r ! j < 1.5
          \<and> \<lparr>content = ''gamma'', metadata = [(''chunk_index'', 2)],
               similarity_score = 3 / 5, document_id = ''doc-1'',
               source = ''Document: doc-1 | Chunk: 2''\<rparr>
              = \<lparr>content = documents r ! j, metadata = metadatas r ! j,
                  similarity_score = 1 - distances r ! j, document_id = d,
                  source = ''Document: '' @ d @ '' | Chunk: '' @ str_nat j\<rparr>)"
proof -
  have mem: "\<lparr>content = ''gamma'', metadata = [(''chunk_index'', 2)],
     similarity_score = 3 / 5, document_id = ''doc-1'',
     source = ''Document: doc-1 | Chunk: 2''\<rparr>
     \<in> set (retrieve_context_multiple_docs example_client ''what'' [''doc-0'', ''doc-1''] 3)"
    unfolding example_ranked by simp
  show ?thesis
    using mem retrieve_context_multiple_docs_result[of example_client "''what''"
        "[''doc-0'', ''doc-1'']" 3, THEN conjunct2, THEN conjunct2, THEN bspec, OF mem]
    by (rule conjI)
qed

subsection \<open>Generation\<close>

text \<open>
  Claim C6. For every question, \<open>generate_rag_response\<close> called with an empty context
  list returns the fixed message that no relevant context was found, and submits no
  prompt to the generative model.
\<close>

theorem generate_rag_response_without_context:
  "generate_rag_response llm [] user_question =
     (Inr ''I could not find relevant context in the document to answer that question.'', [])"
  by (simp add: generate_rag_response_def)

lemma generate_rag_response_returns:
  "\<exists>text. fst (generate_rag_response llm context user_question) = Inr text"
  by (cases "llm (rag_prompt (str_join ''\<newline>---\<newline>'' (map content context)) user_question)")
     (simp_all add: generate_rag_response_def Let_def)

lemma generate_rag_response_with_sources_returns:
  "\<exists>text. fst (generate_rag_response_with_sources llm context user_question contexts_by_doc)
            = Inr text"
  by (cases "llm (sources_prompt (documents_context_text contexts_by_doc) user_question)")
     (simp_all add: generate_rag_response_with_sources_def Let_def)

text \<open>
  Claim C7. When the call of the generative model raises, \<open>generate_rag_response\<close> (on a
  non-empty context) returns normally with the text \<^verbatim>\<open>Error: The AI service failed to
  generate a response: \<close> followed by the printed exception, and
  \<open>generate_rag_response_with_sources\<close> returns normally with \<^verbatim>\<open>Error generating
  response: \<close> followed by the printed exception, each for a failure of its own call.
  Both return a text for every model: nothing is raised to the caller.
\<close>

theorem generation_failure_is_reported_in_text:
  "(context \<noteq> [] \<longrightarrow>
      (\<forall>e. llm (rag_prompt (str_join ''\<newline>---\<newline>'' (map content context)) user_question)
              = Inl e \<longrightarrow>
           generate_rag_response llm context user_question =
             (Inr (''Error: The AI service failed to generate a response: '' @ str_exn e),
              [rag_prompt (str_join ''\<newline>---\<newline>'' (map content context)) user_question])))
   \<and> (\<forall>e. llm (sources_prompt (documents_context_text contexts_by_doc) user_question) = Inl e \<longrightarrow>
          generate_rag_response_with_sources llm context' user_question contexts_by_doc =
            (Inr (''Error generating response: '' @ str_exn e),
             [sources_prompt (documents_context_text contexts_by_doc) user_question]))
   \<and> (\<exists>answer. fst (generate_rag_response llm context user_question) = Inr answer)
   \<and> (\<exists>answer. fst (generate_rag_response_with_sources llm context' user_question
                       contexts_by_doc) = Inr answer)"
proof (intro conjI allI impI)
  fix e
  assume "context \<noteq> []"
    and "llm (rag_prompt (str_join ''\<newline>---\<newline>'' (map content context)) user_question) = Inl e"
  then show "generate_rag_response llm context user_question =
             (Inr (''Error: The AI service failed to generate a response: '' @ str_exn e),
              [rag_prompt (str_join ''\<newline>---\<newline>'' (map content context)) user_question])"
    by (simp add: generate_rag_response_def Let_def)
next
  fix e
  assume "llm (sources_prompt (documents_context_text contexts_by_doc) user_question) = Inl e"
  then show "generate_rag_response_with_sources llm context' user_question contexts_by_doc =
            (Inr (''Error generating response: '' @ str_exn e),
             [sources_prompt (documents_context_text contexts_by_doc) user_question])"
    by (simp add: generate_rag_response_with_sources_def Let_def)
next
  show "\<exists>answer. fst (generate_rag_response llm context user_question) = Inr answer"
    by (rule generate_rag_response_returns)
next
  show "\<exists>answer. fst (generate_rag_response_with_sources llm context' user_question
                       contexts_by_doc) = Inr answer"
    by (rule generate_rag_response_with_sources_returns)
qed

theorem generation_failure_is_reported_in_text_witness:
  "fst (generate_rag_response rag_only_model
          [\<lparr>content = ''alpha'', metadata = [(''chunk_index'', 0)], similarity_score = 2 / 5\<rparr>]
          ''what'') =
     Inr ''Error: The AI service failed to generate a response: 429 quota exceeded''
   \<and> fst (generate_rag_response_with_sources failing_model
          [\<lparr>content = ''alpha'', metadata = [(''chunk_index'', 0)], similarity_score = 2 / 5\<rparr>]
          ''what''
          [(''doc-1'', [\<lparr>content = ''alpha'', metadata = [(''chunk_index'', 0)],
                         similarity_score = 2 / 5\<rparr>])]) =
     Inr ''Error generating response: 429 quota exceeded''"
proof -
  let ?c = "\<lparr>content = ''alpha'', metadata = [(''chunk_index'', 0::int)], similarity_score = 2 / 5 :: real\<rparr>"
  have 1: "[?c] \<noteq> []" by simp
  have 2: "rag_only_model (rag_prompt (str_join ''\<newline>---\<newline>'' (map content [?c])) ''what'')
             = Inl (Exception ''429 quota exceeded'')"
    by (simp add: rag_only_model_def)
  have 3: "failing_model (sources_prompt (documents_context_text [(''doc-1'', [?c])]) ''what'')
             = Inl (Exception ''429 quota exceeded'')"
    by (simp add: failing_model_def)
  have a: "generate_rag_response rag_only_model [?c] ''what'' =
             (Inr (''Error: The AI service failed to generate a response: ''
                   @ str_exn (Exception ''429 quota exceeded'')),
              [rag_prompt (str_join ''\<newline>---\<newline>'' (map content [?c])) ''what''])"
    using generation_failure_is_reported_in_text[of "[?c]" rag_only_model "''what''",
        THEN conjunct1, THEN mp, OF 1, THEN spec, THEN mp, OF 2] .
  have b: "generate_rag_response_with_sources failing_model [?c] ''what'' [(''doc-1'', [?c])] =
             (Inr (''Error generating response: '' @ str_exn (Exception ''429 quota exceeded'')),
              [sources_prompt (documents_context_text [(''doc-1'', [?c])]) ''what''])"
    using generation_failure_is_reported_in_text[of _ failing_model "''what''"
        "[(''doc-1'', [?c])]" "[?c]",
        THEN conjunct2, THEN conjunct1, THEN spec, THEN mp, OF 3] .
  show ?thesis unfolding a b by simp
qed

subsection \<open>Summaries\<close>

lemma map_of_prompts_overview:
  "map_of (prompts context_text) ''overview'' = Some (overview_prompt context_text)"
  by (simp add: prompts_def)

lemma map_of_prompts_unknown:
  "summary_type \<notin> {''overview'', ''key_points'', ''executive'', ''detailed''} \<Longrightarrow>
   map_of (prompts context_text) summary_type = None"
  by (simp add: prompts_def)

lemma summary_prompt_returns: "\<exists>prompt. summary_prompt chunks summary_type = Inr prompt"
  by (simp add: summary_prompt_def Let_def map_of_prompts_overview)

text \<open>
  Claim C10. For a \<open>summary_type\<close> outside overview, key_points, executive and detailed,
  the prompt of \<open>generate_document_summary\<close> is the overview template; for every
  \<open>summary_type\<close> the prompt is built from the first 15 chunks only, and the function
  returns a text and raises nothing.
\<close>

theorem summary_unknown_type_and_truncation:
  "(summary_type \<notin> {''overview'', ''key_points'', ''executive'', ''detailed''} \<longrightarrow>
      summary_prompt chunks summary_type =
        Inr (overview_prompt (str_join ''\<newline>'' (take 15 chunks))))
   \<and> summary_prompt chunks summary_type = summary_prompt (take 15 chunks) summary_type
   \<and> (\<exists>text prompt. summary_prompt chunks summary_type = Inr prompt
         \<and> generate_document_summary llm doc_id chunks summary_type = (Inr text, [prompt]))"
proof (intro conjI impI)
  assume "summary_type \<notin> {''overview'', ''key_points'', ''executive'', ''detailed''}"
  then show "summary_prompt chunks summary_type =
        Inr (overview_prompt (str_join ''\<newline>'' (take 15 chunks)))"
    by (simp add: summary_prompt_def Let_def map_of_prompts_overview map_of_prompts_unknown)
next
  show "summary_prompt chunks summary_type = summary_prompt (take 15 chunks) summary_type"
    by (simp add: summary_prompt_def)
next
  obtain prompt where p: "summary_prompt chunks summary_type = Inr prompt"
    using summary_prompt_returns by blast
  show "\<exists>text prompt. summary_prompt chunks summary_type = Inr prompt
         \<and> generate_document_summary llm doc_id chunks summary_type = (Inr text, [prompt])"
    by (cases "llm prompt") (simp_all add: generate_document_summary_def p)
qed

theorem summary_unknown_type_and_truncation_witness:
  "''haiku'' \<notin> {''overview'', ''key_points'', ''executive'', ''detailed''}
   \<and> summary_prompt [''a'', ''b''] ''haiku'' = Inr (overview_prompt ''a\<newline>b'')"
proof -
  have h: "''haiku'' \<notin> {''overview'', ''key_points'', ''executive'', ''detailed''}" by simp
  have "summary_prompt [''a'', ''b''] ''haiku'' =
        Inr (overview_prompt (str_join ''\<newline>'' (take 15 [''a'', ''b''])))"
    using summary_unknown_type_and_truncation[of "''haiku''" "[''a'', ''b'']", THEN conjunct1] h
    by (rule mp)
  then have "summary_prompt [''a'', ''b''] ''haiku'' = Inr (overview_prompt ''a\<newline>b'')"
    by simp
  with h show ?thesis by (rule conjI)
qed

subsection \<open>Endpoints\<close>

lemma source_metadata_multiple_nth:
  "i < length context_data \<Longrightarrow>
   source_metadata_multiple context_data ! i =
     JObj [(''document_id'', JStr (document_id (context_data ! i))),
           (''content_preview'', JStr (take 200 (content (context_data ! i)) @ ''...'')),
           (''similarity'', JNum (similarity_score (context_data ! i))),
           (''source_info'', JStr (source (context_data ! i)))]"
  by (simp add: source_metadata_multiple_def)

text \<open>
  Claim C8. For a request to \<^verbatim>\<open>POST /qa/ask-multiple\<close> with document identifiers and a
  question, when the retrieval finds at least one context, the response body is the
  dictionary with the single key \<open>answer\<close>, whose value is the text that
  \<open>generate_rag_response_with_sources\<close> returned. The source metadata that the handler
  builds holds one entry per retrieved context, in order, with that context's document
  identifier, the first 200 characters of its content followed by three dots, its
  similarity score and its source label; no value of the body is one of these entries
  or their list.
\<close>

theorem ask_multiple_returns_answer_only:
  assumes "document_ids data = Some ids" and "ids \<noteq> []"
    and "question data = Some qn" and "qn \<noteq> []"
    and "retrieve_context_multiple_docs client qn ids 3 = context_data"
    and "context_data \<noteq> []"
  shows "\<exists>answer. fst (generate_rag_response_with_sources llm context_data qn
                       (group_by_document context_data [])) = Inr answer
           \<and> contextual_qa_multiple client llm data = Inr [(''answer'', JStr answer)]
           \<and> length (source_metadata_multiple context_data) = length context_data
           \<and> (\<forall>i < length context_data.
                 source_metadata_multiple context_data ! i =
                   JObj [(''document_id'', JStr (document_id (context_data ! i))),
                         (''content_preview'',
                            JStr (take 200 (content (context_data ! i)) @ ''...'')),
                         (''similarity'', JNum (similarity_score (context_data ! i))),
                         (''source_info'', JStr (source (context_data ! i)))])
           \<and> (\<forall>v \<in> snd ` set [(''answer'', JStr answer)].
                 v \<noteq> JArr (source_metadata_multiple context_data)
                 \<and> v \<notin> set (source_metadata_multiple context_data))"
proof -
  obtain answer where t: "fst (generate_rag_response_with_sources llm context_data qn
                       (group_by_document context_data [])) = Inr answer"
    using generate_rag_response_with_sources_returns by blast
  have r: "contextual_qa_multiple client llm data = Inr [(''answer'', JStr answer)]"
    using assms t by (simp add: contextual_qa_multiple_def Let_def)
  have l: "length (source_metadata_multiple context_data) = length context_data"
    by (simp add: source_metadata_multiple_def)
  have n: "\<forall>i < length context_data.
                 source_metadata_multiple context_data ! i =
                   JObj [(''document_id'', JStr (document_id (context_data ! i))),
                         (''content_preview'',
                            JStr (take 200 (content (context_data ! i)) @ ''...'')),
                         (''similarity'', JNum (similarity_score (context_data ! i))),
                         (''source_info'', JStr (source (context_data ! i)))]"
    by (simp add: source_metadata_multiple_nth)
  have o: "\<forall>v \<in> snd ` set [(''answer'', JStr answer)].
                 v \<noteq> JArr (source_metadata_multiple context_data)
                 \<and> v \<notin> set (source_metadata_multiple context_data)"
    by (auto simp: source_metadata_multiple_def)
  from t r l n o show ?thesis by blast
qed

lemma answering_model_answer:
  "fst (generate_rag_response_with_sources answering_model context qn contexts_by_doc)
     = Inr ''The documents agree.''"
  by (simp add: generate_rag_response_with_sources_def answering_model_def Let_def)

theorem ask_multiple_returns_answer_only_witness:
  "contextual_qa_multiple example_client answering_model ask_both =
     Inr [(''answer'', JStr ''The documents agree.'')]
   \<and> source_metadata_multiple
        (retrieve_context_multiple_docs example_client ''what'' [''doc-0'', ''doc-1''] 3) ! 0 =
       JObj [(''document_id'', JStr ''doc-1''),
             (''content_preview'', JStr ''gamma...''),
             (''similarity'', JNum (3 / 5)),
             (''source_info'', JStr ''Document: doc-1 | Chunk: 2'')]"
proof -
  let ?cs = "retrieve_context_multiple_docs example_client ''what'' [''doc-0'', ''doc-1''] 3"
  have 1: "document_ids ask_both = Some [''doc-0'', ''doc-1'']" by (simp add: ask_both_def)
  have 2: "[''doc-0'', ''doc-1''] \<noteq> []" by simp
  have 3: "question ask_both = Some ''what''" by (simp add: ask_both_def)
  have 4: "''what'' \<noteq> []" by simp
  have 5: "?cs = ?cs" by (rule refl)
  have 6: "?cs \<noteq> []" unfolding example_ranked by simp
  have 7: "0 < length ?cs" unfolding example_ranked by simp
  from ask_multiple_returns_answer_only[OF 1 2 3 4 5 6, of answering_model]
  obtain answer where
    "fst (generate_rag_response_with_sources answering_model ?cs ''what''
            (group_by_document ?cs [])) = Inr answer"
    and r: "contextual_qa_multiple example_client answering_model ask_both
            = Inr [(''answer'', JStr answer)]"
    and n: "\<forall>i < length ?cs.
                 source_metadata_multiple ?cs ! i =
                   JObj [(''document_id'', JStr (document_id (?cs ! i))),
                         (''content_preview'', JStr (take 200 (content (?cs ! i)) @ ''...'')),
                         (''similarity'', JNum (similarity_score (?cs ! i))),
                         (''source_info'', JStr (source (?cs ! i)))]"
    by (elim exE conjE)
  then have "answer = ''The documents agree.''"
    unfolding answering_model_answer by simp
  with r have a: "contextual_qa_multiple example_client answering_model ask_both =
     Inr [(''answer'', JStr ''The documents agree.'')]" by simp
  from n[rule_format, OF 7] have "source_metadata_multiple ?cs ! 0 =
                   JObj [(''document_id'', JStr (document_id (?cs ! 0))),
                         (''content_preview'', JStr (take 200 (content (?cs ! 0)) @ ''...'')),
                         (''similarity'', JNum (similarity_score (?cs ! 0))),
                         (''source_info'', JStr (source (?cs ! 0)))]"
    .
  moreover have "?cs ! 0 = \<lparr>content = ''gamma'', metadata = [(''chunk_index'', 2)],
        similarity_score = 3 / 5, document_id = ''doc-1'',
        source = ''Document: doc-1 | Chunk: 2''\<rparr>"
    unfolding example_ranked by simp
  ultimately have b: "source_metadata_multiple ?cs ! 0 =
       JObj [(''document_id'', JStr ''doc-1''),
             (''content_preview'', JStr ''gamma...''),
             (''similarity'', JNum (3 / 5)),
             (''source_info'', JStr ''Document: doc-1 | Chunk: 2'')]"
    by simp
  from a b show ?thesis by (rule conjI)
qed

subsection \<open>Indexing\<close>

lemma parse_pdf_cases:
  "(\<exists>detail. parse_pdf env file_data = Inl (HTTPException 500 detail))
   \<or> (\<exists>text. parse_pdf env file_data = Inr text \<and> str_strip text \<noteq> [])"
  by (cases "PdfReader env file_data")
     (simp_all add: parse_pdf_def Let_def)

lemma parse_pdf_no_text:
  "PdfReader env file_data = Inr pages \<Longrightarrow> str_strip (pdf_pages 0 pages []) = [] \<Longrightarrow>
   parse_pdf env file_data =
     Inl (HTTPException 500
            (''PDF Parsing Error: '' @
             str_exn (HTTPException 500
                        ''PDF appears to be empty or contains no extractable text'')))"
  by (simp add: parse_pdf_def Let_def)

lemma insert_chunks_to_chroma_cases:
  "(\<exists>detail. insert_chunks_to_chroma client chunks doc_id = Inl (HTTPException 500 detail))
   \<or> insert_chunks_to_chroma client chunks doc_id = Inr doc_id"
proof (cases "get_or_create_collection client doc_id")
  case (Inl e)
  then show ?thesis by (simp add: insert_chunks_to_chroma_def)
next
  case (Inr coll)
  then show ?thesis
    by (cases "add coll chunks (map (\<lambda>i. [(''chunk_index'', int i)]) [0..<length chunks])
                 (map (\<lambda>i. ''chunk_'' @ str_nat i) [0..<length chunks])")
       (simp_all add: insert_chunks_to_chroma_def Let_def)
qed

lemma index_document_pdf_status:
  assumes "file_extension filename = ''.pdf''"
  shows "http_status (index_document env client filename file_data) \<in> {200, 500}"
proof -
  have up: "parse_upload env filename file_data = parse_pdf env file_data"
    using assms by (simp add: parse_upload_def)
  from parse_pdf_cases[of env file_data] show ?thesis
  proof (elim disjE exE conjE)
    fix detail assume "parse_pdf env file_data = Inl (HTTPException 500 detail)"
    then show ?thesis by (simp add: index_document_def up)
  next
    fix raw assume r: "parse_pdf env file_data = Inr raw" "str_strip raw \<noteq> []"
    from insert_chunks_to_chroma_cases[of client "split_text env raw" "uuid4 env"]
    show ?thesis
      by (elim disjE exE) (simp_all add: index_document_def up r Let_def)
  qed
qed

text \<open>
  Claim C1, as the code has it. \<open>index_document\<close> answers 400 when the extension of the
  file name is not \<^verbatim>\<open>.pdf\<close>, \<^verbatim>\<open>.docx\<close> or \<^verbatim>\<open>.txt\<close>, and 422 when a \<^verbatim>\<open>.docx\<close> or
  \<^verbatim>\<open>.txt\<close> file parses to an empty or whitespace-only text. For a \<^verbatim>\<open>.pdf\<close> file the
  status is 200 or 500, never 422: a PDF whose pages yield no text is answered with 500
  by \<open>parse_pdf\<close> itself.
\<close>

theorem index_document_status:
  "(file_extension filename \<notin> {''.pdf'', ''.docx'', ''.txt''} \<longrightarrow>
      index_document env client filename file_data =
        Inl (HTTPException 400 (''Unsupported file type: '' @ file_extension filename)))
   \<and> (file_extension filename \<in> {''.docx'', ''.txt''} \<longrightarrow>
        (\<forall>raw_text. parse_upload env filename file_data = Inr raw_text \<longrightarrow>
           str_strip raw_text = [] \<longrightarrow>
           index_document env client filename file_data =
             Inl (HTTPException 422 ''Could not extract any meaningful text.'')))
   \<and> (file_extension filename = ''.pdf'' \<longrightarrow>
        http_status (index_document env client filename file_data) \<in> {200, 500}
        \<and> (\<forall>pages. PdfReader env file_data = Inr pages \<longrightarrow>
              str_strip (pdf_pages 0 pages []) = [] \<longrightarrow>
              http_status (index_document env client filename file_data) = 500))"
proof (intro conjI impI allI)
  assume "file_extension filename \<notin> {''.pdf'', ''.docx'', ''.txt''}"
  then show "index_document env client filename file_data =
        Inl (HTTPException 400 (''Unsupported file type: '' @ file_extension filename))"
    by (simp add: index_document_def parse_upload_def)
next
  fix raw_text
  assume "parse_upload env filename file_data = Inr raw_text" "str_strip raw_text = []"
  then show "index_document env client filename file_data =
             Inl (HTTPException 422 ''Could not extract any meaningful text.'')"
    by (simp add: index_document_def)
next
  assume "file_extension filename = ''.pdf''"
  then show "http_status (index_document env client filename file_data) \<in> {200, 500}"
    by (rule index_document_pdf_status)
next
  fix pages
  assume "file_extension filename = ''.pdf''" "PdfReader env file_data = Inr pages"
    "str_strip (pdf_pages 0 pages []) = []"
  then show "http_status (index_document env client filename file_data) = 500"
    by (simp add: index_document_def parse_upload_def parse_pdf_no_text)
qed

lemma ext_csv: "file_extension ''data.csv'' = ''.csv''" by code_simp
lemma ext_txt: "file_extension ''notes.TXT'' = ''.txt''" by code_simp
lemma ext_pdf: "file_extension ''scan.pdf'' = ''.pdf''" by code_simp
lemma ext_docx: "file_extension ''report.docx'' = ''.docx''" by code_simp
lemma blank_text: "str_strip '' \<newline> '' = []" by code_simp
lemma blank_docx: "parse_docx blank_libraries [] = Inr []" by code_simp
lemma blank_pdf_text: "pdf_pages 0 blank_pages [] = []" by code_simp
lemma strip_Nil: "str_strip [] = []" by (simp add: str_strip_def)

lemma blank_reader: "PdfReader blank_libraries [] = Inr blank_pages"
  by (simp add: blank_libraries_def)

theorem index_document_status_witness:
  "http_status (index_document blank_libraries example_client ''data.csv'' []) = 400
   \<and> http_status (index_document blank_libraries example_client ''notes.TXT'' []) = 422
   \<and> http_status (index_document blank_libraries example_client ''report.docx'' []) = 422
   \<and> http_status (index_document blank_libraries example_client ''scan.pdf'' []) = 500"
proof -
  have csv: "file_extension ''data.csv'' \<notin> {''.pdf'', ''.docx'', ''.txt''}"
    unfolding ext_csv by simp
  have is_txt: "file_extension ''notes.TXT'' \<in> {''.docx'', ''.txt''}"
    unfolding ext_txt by simp
  have parsed: "parse_upload blank_libraries ''notes.TXT'' [] = Inr '' \<newline> ''"
    by (simp add: parse_upload_def ext_txt parse_txt_def blank_libraries_def)
  have none: "str_strip (pdf_pages 0 blank_pages []) = []"
    unfolding blank_pdf_text by (rule strip_Nil)
  have a: "http_status (index_document blank_libraries example_client ''data.csv'' []) = 400"
    using index_document_status[of "''data.csv''" blank_libraries example_client "[]",
        THEN conjunct1, THEN mp, OF csv] by simp
  have b: "http_status (index_document blank_libraries example_client ''notes.TXT'' []) = 422"
    using index_document_status[of "''notes.TXT''" blank_libraries example_client "[]",
        THEN conjunct2, THEN conjunct1, THEN mp, OF is_txt, THEN spec, THEN mp, OF parsed,
        THEN mp, OF blank_text] by simp
  have is_docx: "file_extension ''report.docx'' \<in> {''.docx'', ''.txt''}"
    unfolding ext_docx by simp
  have parsed_docx: "parse_upload blank_libraries ''report.docx'' [] = Inr []"
    by (simp add: parse_upload_def ext_docx blank_docx)
  have b': "http_status (index_document blank_libraries example_client ''report.docx'' []) = 422"
    using index_document_status[of "''report.docx''" blank_libraries example_client "[]",
        THEN conjunct2, THEN conjunct1, THEN mp, OF is_docx, THEN spec, THEN mp, OF parsed_docx,
        THEN mp, OF strip_Nil] by simp
  have c: "http_status (index_document blank_libraries example_client ''scan.pdf'' []) = 500"
    using index_document_status[of "''scan.pdf''" blank_libraries example_client "[]",
        THEN conjunct2, THEN conjunct2, THEN mp, OF ext_pdf, THEN conjunct2, THEN spec,
        THEN mp, OF blank_reader, THEN mp, OF none] .
  from a b b' c show ?thesis by (intro conjI)
qed

lemma blank_pdf_response:
  "index_document blank_libraries example_client ''scan.pdf'' [] =
     Inl (HTTPException 500
            ''PDF Parsing Error: 500: PDF appears to be empty or contains no extractable text'')"
  by (simp add: index_document_def parse_upload_def ext_pdf parse_pdf_def blank_libraries_def
      blank_pdf_text strip_Nil str_int_def) code_simp

text \<open>
  Claim C1 as stated fails on a PDF whose pages yield no usable text: the parsed text is
  empty and the status is 500, not 422.
\<close>

theorem index_document_blank_pdf_is_500:
  "file_extension ''scan.pdf'' = ''.pdf''
   \<and> PdfReader blank_libraries [] = Inr blank_pages
   \<and> str_strip (pdf_pages 0 blank_pages []) = []
   \<and> http_status (index_document blank_libraries example_client ''scan.pdf'' []) = 500
   \<and> http_status (index_document blank_libraries example_client ''scan.pdf'' []) \<noteq> 422"
  by (simp add: ext_pdf blank_reader blank_pdf_text strip_Nil blank_pdf_response)

text \<open>
  Claim C4 at a page of exactly ten characters: the page loop of \<open>parse_pdf\<close> keeps a
  page only when its normalised text is longer than ten characters, so the page
  \<^verbatim>\<open>Chapter 10\<close> is dropped, while the comment in the code asks for at least ten.
\<close>

theorem parse_pdf_drops_page_of_ten_characters:
  "length (str_strip (str_join '' '' (str_split ''Chapter 10''))) = 10
   \<and> pdf_pages 0 [Inr ''Chapter 10'', Inr ''Introduction''] [] =
       ''Page 2:\<newline>Introduction\<newline>\<newline>''
   \<and> pdf_pages 0 [Inr ''Chapter 10''] [] = []"
  by code_simp

end
